theory Spec2Isabelle
  imports Main "HOL-Library.Finite_Map" "HOL-Library.List_Lexorder"
begin

section \<open>Python strings and the library functions the server calls\<close>

text \<open>
  A Python \<open>str\<close> is a sequence of Unicode code points; it is modelled as a list of
  natural numbers. String constants of the source are written with \<open>str\<close>.
\<close>

type_synonym pystr = "nat list"

definition str :: "string \<Rightarrow> pystr" where
  "str s = map of_char s"

text \<open>
  The character classes of \<open>re\<close> on \<open>str\<close> patterns are the Unicode ones: \<open>\s\<close> is
  \<open>Py_UNICODE_ISSPACE\<close> (also used by \<open>str.strip()\<close>) and \<open>\w\<close> is
  \<open>Py_UNICODE_ISALNUM\<close> or the underscore. On ASCII both tables are written out; beyond
  ASCII they belong to the interpreter's Unicode database and are parameters, as are
  \<open>urllib.parse.unquote\<close>, \<open>json.load\<close>, \<open>int\<close> of a string and
  \<open>bytes.decode('utf-8')\<close> (each \<open>None\<close> when it raises). Bytes are numbers below 256.
\<close>

text \<open>
  The values \<open>json.load\<close> builds: \<open>None\<close>, \<open>bool\<close>, \<open>int\<close>, \<open>float\<close> (kept as its
  literal, it is only passed through), \<open>str\<close>, \<open>list\<close> and \<open>dict\<close> (an association
  list read with \<open>map_of\<close>).
\<close>

datatype json =
    JNull
  | JBool bool
  | JInt int
  | JFloat pystr
  | JStr pystr
  | JArr "json list"
  | JObj "(pystr \<times> json) list"

record pylib =
  uni_isalnum :: "nat \<Rightarrow> bool"
  uni_isspace :: "nat \<Rightarrow> bool"
  unquote :: "pystr \<Rightarrow> pystr"
  json_load :: "pystr \<Rightarrow> json option"
  py_int :: "pystr \<Rightarrow> int option"
  utf8_decode :: "nat list \<Rightarrow> pystr option"

definition ascii_isspace :: "nat \<Rightarrow> bool" where
  "ascii_isspace c = ((9 \<le> c \<and> c \<le> 13) \<or> (28 \<le> c \<and> c \<le> 32))"

definition ascii_isalnum :: "nat \<Rightarrow> bool" where
  "ascii_isalnum c = ((48 \<le> c \<and> c \<le> 57) \<or> (65 \<le> c \<and> c \<le> 90) \<or> (97 \<le> c \<and> c \<le> 122))"

definition isspace :: "'a pylib_scheme \<Rightarrow> nat \<Rightarrow> bool" where
  "isspace L c = (if c < 128 then ascii_isspace c else uni_isspace L c)"

definition isalnum :: "'a pylib_scheme \<Rightarrow> nat \<Rightarrow> bool" where
  "isalnum L c = (if c < 128 then ascii_isalnum c else uni_isalnum L c)"

text \<open>\<open>\w\<close>: alphanumeric or underscore (code point 95).\<close>

definition re_word :: "'a pylib_scheme \<Rightarrow> nat \<Rightarrow> bool" where
  "re_word L c = (isalnum L c \<or> c = 95)"

text \<open>
  \<open>re.sub\<close> for a pattern that is one character class: every matching character is
  replaced by \<open>repl\<close>.
\<close>

definition re_sub_class :: "(nat \<Rightarrow> bool) \<Rightarrow> pystr \<Rightarrow> pystr \<Rightarrow> pystr" where
  "re_sub_class P repl s = concat (map (\<lambda>c. if P c then repl else [c]) s)"

text \<open>
  \<open>re.sub\<close> for a pattern \<open>[class]+\<close>: the scan goes left to right, a match is a
  maximal run of class characters, and each run is replaced by one \<open>repl\<close>. The flag
  says whether the previous character belonged to the run being consumed.
\<close>

fun re_sub_plus_scan :: "(nat \<Rightarrow> bool) \<Rightarrow> pystr \<Rightarrow> bool \<Rightarrow> pystr \<Rightarrow> pystr" where
  "re_sub_plus_scan P repl inrun [] = []"
| "re_sub_plus_scan P repl inrun (c # cs) =
     (if P c then (if inrun then re_sub_plus_scan P repl True cs
                   else repl @ re_sub_plus_scan P repl True cs)
      else c # re_sub_plus_scan P repl False cs)"

definition re_sub_plus :: "(nat \<Rightarrow> bool) \<Rightarrow> pystr \<Rightarrow> pystr \<Rightarrow> pystr" where
  "re_sub_plus P repl s = re_sub_plus_scan P repl False s"

text \<open>\<open>str.strip()\<close>: the slice between the first and the last non-whitespace character.\<close>

definition py_strip :: "'a pylib_scheme \<Rightarrow> pystr \<Rightarrow> pystr" where
  "py_strip L s = rev (dropWhile (isspace L) (rev (dropWhile (isspace L) s)))"

section \<open>Names and filenames\<close>

text \<open>
  \<^verbatim>\<open>safe = re.sub(r'[^\w\s-]', '', name).strip()\<close>
  \<^verbatim>\<open>safe = re.sub(r'\s+', '_', safe)\<close>
  \<^verbatim>\<open>return safe + '.json' if safe else None\<close>
\<close>

definition safe_filename :: "'a pylib_scheme \<Rightarrow> pystr \<Rightarrow> pystr option" where
  "safe_filename L name =
     (let safe = py_strip L (re_sub_class (\<lambda>c. \<not> (re_word L c \<or> isspace L c \<or> c = 45)) [] name);
          safe = re_sub_plus (isspace L) (str ''_'') safe
      in if safe \<noteq> [] then Some (safe @ str ''.json'') else None)"

subsection \<open>The mapping as the specification words it\<close>

definition keep_char :: "'a pylib_scheme \<Rightarrow> nat \<Rightarrow> bool" where
  "keep_char L c = (isalnum L c \<or> c = 95 \<or> isspace L c \<or> c = 45)"

definition trim :: "'a pylib_scheme \<Rightarrow> pystr \<Rightarrow> pystr" where
  "trim L s = rev (dropWhile (isspace L) (rev (dropWhile (isspace L) s)))"

function collapse_runs :: "'a pylib_scheme \<Rightarrow> pystr \<Rightarrow> pystr" where
  "collapse_runs L [] = []"
| "collapse_runs L (c # cs) =
     (if isspace L c then 95 # collapse_runs L (dropWhile (isspace L) cs)
      else c # collapse_runs L cs)"
  by pat_completeness auto
termination
  by (relation "measure (\<lambda>(L, s). length s)")
     (auto simp: le_imp_less_Suc length_dropWhile_le)

definition spec_filename :: "'a pylib_scheme \<Rightarrow> pystr \<Rightarrow> pystr option" where
  "spec_filename L name =
     (let stem = collapse_runs L (trim L (filter (keep_char L) name))
      in if stem = [] then None else Some (stem @ str ''.json''))"

text \<open>
  \<open>str.replace(old, new)\<close>: occurrences of \<open>old\<close> are found left to right and do not
  overlap. With an empty \<open>old\<close> Python puts \<open>new\<close> around every character.
\<close>

function py_replace_scan :: "pystr \<Rightarrow> pystr \<Rightarrow> pystr \<Rightarrow> pystr" where
  "py_replace_scan old new [] = []"
| "py_replace_scan old new (c # cs) =
     (if old \<noteq> [] \<and> take (length old) (c # cs) = old
      then new @ py_replace_scan old new (drop (length old) (c # cs))
      else c # py_replace_scan old new cs)"
  by pat_completeness auto
termination
  by (relation "measure (\<lambda>(old, new, s). length s)") auto

definition py_replace :: "pystr \<Rightarrow> pystr \<Rightarrow> pystr \<Rightarrow> pystr" where
  "py_replace old new s =
     (if old = [] then new @ concat (map (\<lambda>c. c # new) s) else py_replace_scan old new s)"

text \<open>\<^verbatim>\<open>name = filename.replace('.json', '').replace('_', ' ')\<close>\<close>

definition name_from_filename :: "pystr \<Rightarrow> pystr" where
  "name_from_filename filename =
     py_replace (str ''_'') (str '' '') (py_replace (str ''.json'') [] filename)"

text \<open>What the specification says instead: drop the suffix, then replace underscores.\<close>

definition drop_json_suffix :: "pystr \<Rightarrow> pystr" where
  "drop_json_suffix f =
     (if length (str ''.json'') \<le> length f
         \<and> drop (length f - length (str ''.json'')) f = str ''.json''
      then take (length f - length (str ''.json'')) f else f)"

definition spec_name_from_filename :: "pystr \<Rightarrow> pystr" where
  "spec_name_from_filename f = map (\<lambda>c. if c = 95 then 32 else c) (drop_json_suffix f)"

section \<open>The save directory and text-mode files\<close>

text \<open>
  \<open>SAVES_DIR\<close> is a flat directory: a finite map from filenames to the text of each
  file (its bytes, decoded), or no directory at all. The script is started through a
  Unix shebang line: \<open>os.linesep\<close> is a line feed and the files are UTF-8. Whether a
  file can be read at all is a matter of the environment, below.
\<close>

datatype fs = NoDir | Dir "(pystr, pystr) fmap"

definition os_linesep :: pystr where
  "os_linesep = [10]"

text \<open>Writing in text mode turns every line feed into \<open>os.linesep\<close>.\<close>

definition text_write :: "pystr \<Rightarrow> pystr" where
  "text_write data = concat (map (\<lambda>c. if c = 10 then os_linesep else [c]) data)"

text \<open>
  Reading in text mode (\<open>open(path, 'r')\<close>, universal newlines): \<open>\r\n\<close> and a lone
  \<open>\r\<close> both come back as \<open>\n\<close>.
\<close>

fun text_read :: "pystr \<Rightarrow> pystr" where
  "text_read [] = []"
| "text_read [c] = (if c = 13 then [10] else [c])"
| "text_read (c # d # cs) =
     (if c = 13 then (if d = 10 then 10 # text_read cs else 10 # text_read (d # cs))
      else c # text_read (d # cs))"

text \<open>
  The text stored under a filename of the save directory, if there is such a file:
  \<open>os.path.exists(os.path.join(SAVES_DIR, filename))\<close> holds when there is one.
\<close>

fun file_text :: "fs \<Rightarrow> pystr \<Rightarrow> pystr option" where
  "file_text NoDir f = None"
| "file_text (Dir d) f = fmlookup d f"

text \<open>
  What can go wrong between \<open>open(filepath, 'w')\<close> and the end of the \<open>with\<close> block:
  the open itself raises (nothing changes), or the write raises after the file was
  created or truncated and \<open>n\<close> characters reached it.
\<close>

datatype io_fault = NoFault | OpenFails | WriteFails nat


text \<open>
  The environment decides what the program cannot: the result of \<open>os.stat\<close> (\<open>None\<close>
  when it raises, otherwise the value the source computes as
  \<open>int(stat.st_mtime * 1000)\<close> and \<open>st_size\<close>), whether opening and reading an
  existing file raises (no permission, bytes that do not decode), whether
  \<open>os.remove\<close> of an existing file raises, and whether \<open>os.listdir\<close> of the save
  directory raises (no permission to list it).
\<close>

record stat_result =
  saved_at :: int
  st_size :: nat

record osenv =
  os_stat :: "pystr \<Rightarrow> stat_result option"
  read_raises :: "pystr \<Rightarrow> bool"
  remove_raises :: "pystr \<Rightarrow> bool"
  listdir_raises :: bool

text \<open>A call either raises an exception that nothing catches, or returns.\<close>

datatype 'a outcome = Raise | Return 'a

section \<open>The four operations\<close>

definition load_universe ::
  "'a pylib_scheme \<Rightarrow> 'b osenv_scheme \<Rightarrow> pystr \<Rightarrow> fs \<Rightarrow> pystr option outcome" where
  "load_universe L E name st =
     (case safe_filename L name of
        None \<Rightarrow> Return None
      | Some filename \<Rightarrow>
          (case st of
             NoDir \<Rightarrow> Return None
           | Dir d \<Rightarrow> (case fmlookup d filename of
                         None \<Rightarrow> Return None
                       | Some content \<Rightarrow>
                           (if read_raises E filename then Raise
                            else Return (Some (text_read content))))))"

definition save_universe ::
  "'a pylib_scheme \<Rightarrow> io_fault \<Rightarrow> pystr \<Rightarrow> pystr \<Rightarrow> fs \<Rightarrow> bool \<times> fs" where
  "save_universe L fault name data st =
     (case safe_filename L name of
        None \<Rightarrow> (False, st)
      | Some filename \<Rightarrow>
          (case st of
             NoDir \<Rightarrow> (False, st)
           | Dir d \<Rightarrow>
               (case fault of
                  OpenFails \<Rightarrow> (False, st)
                | WriteFails n \<Rightarrow> (False, Dir (fmupd filename (take n (text_write data)) d))
                | NoFault \<Rightarrow> (True, Dir (fmupd filename (text_write data) d)))))"

definition delete_universe ::
  "'a pylib_scheme \<Rightarrow> 'b osenv_scheme \<Rightarrow> pystr \<Rightarrow> fs \<Rightarrow> bool outcome \<times> fs" where
  "delete_universe L E name st =
     (case safe_filename L name of
        None \<Rightarrow> (Return False, st)
      | Some filename \<Rightarrow>
          (case st of
             NoDir \<Rightarrow> (Return False, st)
           | Dir d \<Rightarrow>
               (if fmlookup d filename \<noteq> None
                then (if remove_raises E filename then (Raise, st)
                      else (Return True, Dir (fmdrop filename d)))
                else (Return False, st))))"

subsection \<open>Listing\<close>

text \<open>\<open>data.get(key, default)\<close>: only a \<open>dict\<close> has it (\<open>None\<close> is the AttributeError).\<close>

fun py_get :: "json \<Rightarrow> pystr \<Rightarrow> json \<Rightarrow> json option" where
  "py_get (JObj kvs) k dflt = Some (case map_of kvs k of None \<Rightarrow> dflt | Some v \<Rightarrow> v)"
| "py_get _ k dflt = None"

text \<open>\<open>len(x)\<close>: defined on \<open>str\<close>, \<open>list\<close> and \<open>dict\<close> (\<open>None\<close> is the TypeError).\<close>

fun py_len :: "json \<Rightarrow> nat option" where
  "py_len (JStr s) = Some (length s)"
| "py_len (JArr xs) = Some (length xs)"
| "py_len (JObj kvs) = Some (length (remdups (map fst kvs)))"
| "py_len _ = None"

definition endswith :: "pystr \<Rightarrow> pystr \<Rightarrow> bool" where
  "endswith s suffix =
     (length suffix \<le> length s \<and> drop (length s - length suffix) s = suffix)"

definition startswith :: "pystr \<Rightarrow> pystr \<Rightarrow> bool" where
  "startswith s pre = (take (length pre) s = pre)"

text \<open>The body of the \<open>try\<close> for one file; \<open>None\<close> is the \<open>except Exception: continue\<close>.\<close>

definition summary ::
  "'a pylib_scheme \<Rightarrow> 'b osenv_scheme \<Rightarrow> (pystr, pystr) fmap \<Rightarrow> pystr \<Rightarrow> json option" where
  "summary L E d f =
     (case os_stat E f of
        None \<Rightarrow> None
      | Some stat \<Rightarrow>
     (case fmlookup d f of
        None \<Rightarrow> None
      | Some content \<Rightarrow>
     (if read_raises E f then None else
     (case json_load L (text_read content) of
        None \<Rightarrow> None
      | Some data \<Rightarrow>
     (case py_get data (str ''tick'') (JInt 0) of
        None \<Rightarrow> None
      | Some tick \<Rightarrow>
     (case py_get data (str ''maxGeneration'') (JInt 0) of
        None \<Rightarrow> None
      | Some generation \<Rightarrow>
     (case py_get data (str ''creatures'') (JArr []) of
        None \<Rightarrow> None
      | Some creatures \<Rightarrow>
     (case py_len creatures of
        None \<Rightarrow> None
      | Some population \<Rightarrow>
          Some (JObj [(str ''name'', JStr (name_from_filename f)),
                      (str ''filename'', JStr f),
                      (str ''tick'', tick),
                      (str ''generation'', generation),
                      (str ''population'', JInt (int population)),
                      (str ''savedAt'', JInt (saved_at stat)),
                      (str ''fileSize'', JInt (int (st_size stat)))])))))))))"

text \<open>
  \<^verbatim>\<open>for f in sorted(os.listdir(SAVES_DIR)):\<close> the names come in any order and are
  sorted as strings, that is by code points, lexicographically.
\<close>

definition list_universes ::
  "'a pylib_scheme \<Rightarrow> 'b osenv_scheme \<Rightarrow> fs \<Rightarrow> json list outcome" where
  "list_universes L E st =
     (case st of
        NoDir \<Rightarrow> Return []
      | Dir d \<Rightarrow>
          (if listdir_raises E then Raise
           else Return (List.map_filter (summary L E d)
                  (filter (\<lambda>f. endswith f (str ''.json''))
                     (sorted_list_of_fset (fmdom d))))))"

section \<open>The request handlers\<close>

text \<open>
  A response is \<open>send_json\<close> of a value, the raw 200 response of the load branch
  (the text is then encoded as UTF-8), an error response with a code and a message,
  whatever the static file server of the base class answers, or nothing at all: the
  handler raised before a byte was sent.
\<close>

datatype response =
    Json200 json
  | Raw200 pystr
  | SendError nat "pystr option"
  | StaticFile
  | Raised

text \<open>
  The class overrides \<open>log_message\<close>:
  \<^verbatim>\<open>if '/api/' in (args[0] if args else ''): super().log_message(format, *args)\<close>
  The \<open>in\<close> test is defined when the first argument is a \<open>str\<close> and raises TypeError
  when it is an \<open>int\<close>. The function says whether the call returns.
\<close>

datatype pyarg = AInt int | AStr pystr

fun log_message :: "pyarg list \<Rightarrow> bool" where
  "log_message [] = True"
| "log_message (AStr s # args) = True"
| "log_message (AInt n # args) = False"

text \<open>
  \<open>send_error(code, message)\<close> of the base class first logs, with
  \<open>self.log_error("code %d, message %s", code, message)\<close>, which is
  \<open>self.log_message(format, code, message)\<close>, and only then sends the response. A
  missing message is the standard phrase of the code. (\<open>send_response\<close> logs too,
  through \<open>log_request\<close>, whose first argument is the request line, a \<open>str\<close>: the
  200 responses are sent.)
\<close>

definition shortmsg :: "nat \<Rightarrow> pystr" where
  "shortmsg code =
     (if code = 400 then str ''Bad Request'' else if code = 404 then str ''Not Found''
      else str ''???'')"

definition send_error :: "nat \<Rightarrow> pystr option \<Rightarrow> response" where
  "send_error code message =
     (if log_message [AInt (int code),
                      AStr (case message of None \<Rightarrow> shortmsg code | Some m \<Rightarrow> m)]
      then SendError code message else Raised)"

definition api_prefix :: pystr where
  "api_prefix = str ''/api/universes/''"

definition do_GET :: "'a pylib_scheme \<Rightarrow> 'b osenv_scheme \<Rightarrow> pystr \<Rightarrow> fs \<Rightarrow> response" where
  "do_GET L E path st =
     (if path = str ''/api/universes'' then
        (case list_universes L E st of
           Raise \<Rightarrow> Raised
         | Return universes \<Rightarrow> Json200 (JArr universes))
      else if startswith path api_prefix then
        (let name = unquote L (drop (length api_prefix) path)
         in case load_universe L E name st of
              Raise \<Rightarrow> Raised
            | Return (Some data) \<Rightarrow> Raw200 data
            | Return None \<Rightarrow> send_error 404 (Some (str ''Universe not found'')))
      else StaticFile)"

text \<open>
  \<open>rfile.read(n)\<close> on the bytes the client sent: a negative \<open>n\<close> reads to the end.
\<close>

definition rfile_read :: "nat list \<Rightarrow> int \<Rightarrow> nat list" where
  "rfile_read rfile n = (if n < 0 then rfile else take (nat n) rfile)"

text \<open>
  \<^verbatim>\<open>content_length = int(self.headers.get('Content-Length', 0))\<close>
  \<^verbatim>\<open>body = self.rfile.read(content_length).decode('utf-8')\<close>
  Both lines are outside any \<open>try\<close>: a header that is no integer and a body that is
  no UTF-8 raise.
\<close>

definition do_POST ::
  "'a pylib_scheme \<Rightarrow> io_fault \<Rightarrow> pystr \<Rightarrow> pystr option \<Rightarrow> nat list \<Rightarrow> fs
   \<Rightarrow> response \<times> fs" where
  "do_POST L fault path content_length_header rfile st =
     (if startswith path api_prefix then
        (let name = unquote L (drop (length api_prefix) path)
         in case (case content_length_header of None \<Rightarrow> Some 0 | Some h \<Rightarrow> py_int L h) of
              None \<Rightarrow> (Raised, st)
            | Some content_length \<Rightarrow>
                (case utf8_decode L (rfile_read rfile content_length) of
                   None \<Rightarrow> (Raised, st)
                 | Some body \<Rightarrow>
                     (let (ok, st') = save_universe L fault name body st
                      in if ok
                         then (Json200 (JObj [(str ''ok'', JBool True),
                                              (str ''name'', JStr name)]), st')
                         else (send_error 400 (Some (str ''Failed to save'')), st'))))
      else (send_error 404 None, st))"

definition do_DELETE ::
  "'a pylib_scheme \<Rightarrow> 'b osenv_scheme \<Rightarrow> pystr \<Rightarrow> fs \<Rightarrow> response \<times> fs" where
  "do_DELETE L E path st =
     (if startswith path api_prefix then
        (let name = unquote L (drop (length api_prefix) path);
             (r, st') = delete_universe L E name st
         in case r of
              Raise \<Rightarrow> (Raised, st')
            | Return ok \<Rightarrow>
                (if ok then (Json200 (JObj [(str ''ok'', JBool True)]), st')
                 else (send_error 404 (Some (str ''Universe not found'')), st')))
      else (send_error 404 None, st))"

section \<open>Concrete inputs\<close>

text \<open>
  An instance of the library parameters for evaluating the model on ASCII inputs without
  percent escapes: there \<open>unquote\<close> is the identity and UTF-8 decoding leaves the
  numbers as they are. Its \<open>json.load\<close> knows the one document used below and rejects
  text that is not JSON; its \<open>int\<close> knows the headers used below.
\<close>

definition sample_doc :: pystr where
  "sample_doc = str ''{\"creatures\": [1, 2], \"tick\": 7}''"

definition sample_lib :: pylib where
  "sample_lib =
     \<lparr>uni_isalnum = (\<lambda>c. False), uni_isspace = (\<lambda>c. False), unquote = (\<lambda>s. s),
      json_load = (\<lambda>s. if s = sample_doc
                          then Some (JObj [(str ''creatures'', JArr [JInt 1, JInt 2]),
                                           (str ''tick'', JInt 7)])
                          else None),
      py_int = (\<lambda>s. if s = str ''1'' then Some 1 else if s = str ''2'' then Some 2
                      else if s = str ''32'' then Some 32 else None),
      utf8_decode = (\<lambda>b. if list_all (\<lambda>x. x < 128) b then Some b else None)\<rparr>"

definition sample_stat :: "pystr \<Rightarrow> stat_result option" where
  "sample_stat f =
     (if f = str ''locked.json'' then None else Some \<lparr>saved_at = 1000, st_size = 32\<rparr>)"

definition sample_env :: osenv where
  "sample_env =
     \<lparr>os_stat = sample_stat, read_raises = (\<lambda>f. f = str ''binary.json''),
      remove_raises = (\<lambda>f. f = str ''binary.json''), listdir_raises = False\<rparr>"


definition sample_dir :: fs where
  "sample_dir =
     Dir (fmupd (str ''b.json'') sample_doc
         (fmupd (str ''a.json'') (str ''not json'')
         (fmupd (str ''locked.json'') sample_doc
         (fmupd (str ''notes.txt'') sample_doc fmempty))))"

text \<open>
  A directory with a file that holds a carriage return and a line feed, and a file
  whose bytes are no text (\<open>sample_env\<close> makes reading it raise).
\<close>

definition crlf_dir :: fs where
  "crlf_dir =
     Dir (fmupd (str ''a.json'') [123, 13, 10, 125] (fmupd (str ''binary.json'') [] fmempty))"



section \<open>Properties of the sanitization\<close>

lemma re_sub_class_filter: "re_sub_class P [] s = filter (\<lambda>c. \<not> P c) s"
  by (induction s) (auto simp: re_sub_class_def)

lemma scan_in_run:
  "re_sub_plus_scan P repl True s = re_sub_plus_scan P repl False (dropWhile P s)"
  by (induction s) auto

lemma scan_collapse:
  "re_sub_plus_scan (isspace L) [95] False s = collapse_runs L s"
proof (induction L s rule: collapse_runs.induct)
  case (1 L)
  show ?case by simp
next
  case (2 L c cs)
  then show ?case by (simp add: scan_in_run)
qed

lemma str_underscore: "str ''_'' = [95]"
  by (simp add: str_def)

lemma str_json: "str ''.json'' = [46, 106, 115, 111, 110]"
  by (simp add: str_def)

lemma filter_re_sub_class:
  "re_sub_class (\<lambda>c. \<not> (re_word L c \<or> isspace L c \<or> c = 45)) [] name
     = filter (keep_char L) name"
proof -
  have k: "(\<lambda>c. \<not> \<not> (re_word L c \<or> isspace L c \<or> c = 45)) = keep_char L"
    by (auto simp: fun_eq_iff keep_char_def re_word_def)
  show ?thesis unfolding re_sub_class_filter k ..
qed

lemma safe_filename_eq_spec: "safe_filename L name = spec_filename L name"
  unfolding safe_filename_def spec_filename_def Let_def filter_re_sub_class
  by (simp add: re_sub_plus_def str_underscore scan_collapse py_strip_def trim_def)

text \<open>
  Claim C3: for every name, the sanitization of the source is the mapping the
  specification describes: drop every character that is not alphanumeric, underscore,
  whitespace or hyphen, trim whitespace at both ends, turn each remaining whitespace
  run into one underscore, append \<open>.json\<close>; and there is no filename exactly when the
  stem is empty.
\<close>

theorem safe_filename_refines_spec:
  "safe_filename L name = spec_filename L name
   \<and> (safe_filename L name = None
        \<longleftrightarrow> collapse_runs L (trim L (filter (keep_char L) name)) = [])"
  by (simp add: safe_filename_eq_spec spec_filename_def Let_def)

lemma set_collapse_runs:
  "set (collapse_runs L s) \<subseteq> {c \<in> set s. \<not> isspace L c} \<union> {95}"
proof (induction L s rule: collapse_runs.induct)
  case (1 L)
  show ?case by simp
next
  case (2 L c cs)
  have "set (dropWhile (isspace L) cs) \<subseteq> set cs"
    by (rule set_dropWhileD [THEN subsetI])
  with 2 show ?case by (auto split: if_splits)
qed

lemma set_trim: "set (trim L s) \<subseteq> set s"
  unfolding trim_def by (auto dest!: set_dropWhileD)

lemma safe_filename_chars:
  assumes "safe_filename L name = Some f"
  shows "\<exists>stem. f = stem @ str ''.json'' \<and> stem \<noteq> []
           \<and> (\<forall>c \<in> set stem. isalnum L c \<or> c = 95 \<or> c = 45)"
proof -
  let ?stem = "collapse_runs L (trim L (filter (keep_char L) name))"
  from assms have f: "f = ?stem @ str ''.json''" and ne: "?stem \<noteq> []"
    by (auto simp: safe_filename_eq_spec spec_filename_def Let_def split: if_splits)
  have "isalnum L c \<or> c = 95 \<or> c = 45" if "c \<in> set ?stem" for c
  proof -
    from that set_collapse_runs [of L "trim L (filter (keep_char L) name)"]
    have "c = 95 \<or> (c \<in> set (trim L (filter (keep_char L) name)) \<and> \<not> isspace L c)"
      by auto
    then show ?thesis
    proof
      assume "c = 95" then show ?thesis by simp
    next
      assume c: "c \<in> set (trim L (filter (keep_char L) name)) \<and> \<not> isspace L c"
      with set_trim [of L "filter (keep_char L) name"] have "keep_char L c" by auto
      with c show ?thesis by (auto simp: keep_char_def)
    qed
  qed
  with f ne show ?thesis by blast
qed

lemma not_alnum_separators:
  "\<not> isalnum L 46" "\<not> isalnum L 47" "\<not> isalnum L 92"
  by (simp_all add: isalnum_def ascii_isalnum_def)

section \<open>Properties of the operations\<close>

lemma text_write_id: "text_write data = data"
  by (induction data) (auto simp: text_write_def os_linesep_def)

lemma text_read_no_cr: "13 \<notin> set s \<Longrightarrow> text_read s = s"
  by (induction s rule: text_read.induct) auto

lemma text_read_has_no_cr: "13 \<notin> set (text_read s)"
  by (induction s rule: text_read.induct) auto

lemma text_read_id_iff: "text_read s = s \<longleftrightarrow> 13 \<notin> set s"
  using text_read_no_cr [of s] text_read_has_no_cr [of s] by auto

lemma load_universe_file:
  "safe_filename L name = Some f \<Longrightarrow>
   load_universe L E name st =
     (case file_text st f of
        None \<Rightarrow> Return None
      | Some content \<Rightarrow>
          if read_raises E f then Raise else Return (Some (text_read content)))"
  by (cases st) (auto simp: load_universe_def split: option.splits)

lemma load_universe_unsanitizable:
  "safe_filename L name = None \<Longrightarrow> load_universe L E name st = Return None"
  by (simp add: load_universe_def)

lemma save_universe_others:
  "safe_filename L name = Some f \<Longrightarrow> g \<noteq> f \<Longrightarrow>
   file_text (snd (save_universe L fault name data st)) g = file_text st g"
  by (cases st; cases fault) (auto simp: save_universe_def)

lemma delete_universe_others:
  "safe_filename L name = Some f \<Longrightarrow> g \<noteq> f \<Longrightarrow>
   file_text (snd (delete_universe L E name st)) g = file_text st g"
  by (cases st) (auto simp: delete_universe_def)

text \<open>
  Claim C10: when the sanitization of a name succeeds, the filename is a non-empty stem
  followed by \<open>.json\<close>, and the stem contains no slash (47), no backslash (92) and no
  dot (46); so the filename has no path separator and is neither \<open>.\<close> nor \<open>..\<close>.
  Load reads the entry of the save directory under that filename and nothing else, and
  Save and Delete leave every other entry of the directory as it was.
\<close>

theorem sanitized_filename_stays_in_saves_dir:
  assumes "safe_filename L name = Some f"
  shows "(\<exists>stem. f = stem @ str ''.json'' \<and> stem \<noteq> []
            \<and> 47 \<notin> set stem \<and> 92 \<notin> set stem \<and> 46 \<notin> set stem)
         \<and> 47 \<notin> set f \<and> 92 \<notin> set f \<and> f \<noteq> str ''..'' \<and> f \<noteq> str ''.''
         \<and> load_universe L E name st =
             (case file_text st f of
                None \<Rightarrow> Return None
              | Some content \<Rightarrow>
                  if read_raises E f then Raise else Return (Some (text_read content)))
         \<and> (\<forall>g. g \<noteq> f \<longrightarrow>
               file_text (snd (save_universe L fault name data st)) g = file_text st g)
         \<and> (\<forall>g. g \<noteq> f \<longrightarrow>
               file_text (snd (delete_universe L E name st)) g = file_text st g)"
proof -
  from safe_filename_chars [OF assms] obtain stem where
    f: "f = stem @ str ''.json''" and ne: "stem \<noteq> []"
    and cs: "\<forall>c \<in> set stem. isalnum L c \<or> c = 95 \<or> c = 45"
    by blast
  from cs not_alnum_separators [of L]
  have stem: "47 \<notin> set stem" "92 \<notin> set stem" "46 \<notin> set stem"
    by auto
  have len: "length f \<ge> 6"
    using ne by (cases stem) (auto simp: f str_json)
  have a: "\<exists>stem. f = stem @ str ''.json'' \<and> stem \<noteq> []
            \<and> 47 \<notin> set stem \<and> 92 \<notin> set stem \<and> 46 \<notin> set stem"
    using f ne stem by blast
  have b: "47 \<notin> set f \<and> 92 \<notin> set f"
    using stem by (simp add: f str_json)
  have c: "f \<noteq> str ''..'' \<and> f \<noteq> str ''.''"
    using len by (auto simp: str_def)
  show ?thesis
    using a b c load_universe_file [OF assms, of E st]
      save_universe_others [OF assms] delete_universe_others [OF assms]
    by blast
qed

theorem sanitized_filename_stays_in_saves_dir_witness:
  "safe_filename sample_lib (str ''My World'') = Some (str ''My_World.json'')
   \<and> 47 \<notin> set (str ''My_World.json'') \<and> 92 \<notin> set (str ''My_World.json'')
   \<and> load_universe sample_lib sample_env (str ''My World'') (Dir fmempty) = Return None"
proof -
  have h: "safe_filename sample_lib (str ''My World'') = Some (str ''My_World.json'')"
    by code_simp
  from sanitized_filename_stays_in_saves_dir [OF h, of sample_env "Dir fmempty" NoFault "[]"] h
  show ?thesis by simp
qed

lemma save_universe_fails:
  "safe_filename L name = None \<Longrightarrow> save_universe L fault name data st = (False, st)"
  by (simp add: save_universe_def)

lemma save_universe_cases:
  "safe_filename L name = Some f \<Longrightarrow>
   save_universe L fault name data st =
     (case st of
        NoDir \<Rightarrow> (False, st)
      | Dir d \<Rightarrow>
          (case fault of
             OpenFails \<Rightarrow> (False, st)
           | WriteFails n \<Rightarrow> (False, Dir (fmupd f (take n data) d))
           | NoFault \<Rightarrow> (True, Dir (fmupd f data d))))"
  by (cases st; cases fault) (simp_all add: save_universe_def text_write_id)



lemma safe_filename_My_World:
  "safe_filename L (str ''My World'') = Some (str ''My_World.json'')"
  "safe_filename L (str ''My_World'') = Some (str ''My_World.json'')"
  by (simp_all add: safe_filename_def str_def re_sub_class_def re_word_def isalnum_def
      isspace_def ascii_isspace_def ascii_isalnum_def py_strip_def re_sub_plus_def)

text \<open>
  Claim C5: when two distinct names sanitize to the same filename and both are saved
  successfully, one after the other, the save directory holds one file under that
  filename, with the second payload, and is otherwise as before the first save: it is
  the old directory with that single entry set. The names \<open>My World\<close> and \<open>My_World\<close>
  both sanitize to \<open>My_World.json\<close>.
\<close>

theorem colliding_names_overwrite:
  assumes "n1 \<noteq> n2"
    and "safe_filename L n1 = Some f" and "safe_filename L n2 = Some f"
    and "save_universe L fault1 n1 data1 st = (True, st1)"
    and "save_universe L fault2 n2 data2 st1 = (True, st2)"
  shows "(\<exists>d. st = Dir d \<and> st2 = Dir (fmupd f data2 d))
         \<and> file_text st2 f = Some data2
         \<and> (\<forall>g. g \<noteq> f \<longrightarrow> file_text st2 g = file_text st g)
         \<and> safe_filename L (str ''My World'') = Some (str ''My_World.json'')
         \<and> safe_filename L (str ''My_World'') = Some (str ''My_World.json'')"
proof -
  from assms(4) obtain d where d: "st = Dir d" and st1: "st1 = Dir (fmupd f data1 d)"
    by (cases st; cases fault1) (auto simp: save_universe_cases [OF assms(2)])
  from assms(5) have st2: "st2 = Dir (fmupd f data2 (fmupd f data1 d))"
    by (cases fault2) (auto simp: save_universe_cases [OF assms(3)] st1)
  have "fmupd f data2 (fmupd f data1 d) = fmupd f data2 d"
    by (rule fmap_ext) simp
  with d st2 show ?thesis
    by (simp add: safe_filename_My_World)
qed

theorem colliding_names_overwrite_witness:
  "str ''My World'' \<noteq> str ''My_World''
   \<and> safe_filename sample_lib (str ''My World'') = Some (str ''My_World.json'')
   \<and> safe_filename sample_lib (str ''My_World'') = Some (str ''My_World.json'')
   \<and> save_universe sample_lib NoFault (str ''My World'') (str ''first'') (Dir fmempty)
       = (True, Dir (fmupd (str ''My_World.json'') (str ''first'') fmempty))
   \<and> save_universe sample_lib NoFault (str ''My_World'') (str ''second'')
        (Dir (fmupd (str ''My_World.json'') (str ''first'') fmempty))
       = (True, Dir (fmupd (str ''My_World.json'') (str ''second'')
                       (fmupd (str ''My_World.json'') (str ''first'') fmempty)))
   \<and> file_text (Dir (fmupd (str ''My_World.json'') (str ''second'')
                       (fmupd (str ''My_World.json'') (str ''first'') fmempty)))
        (str ''My_World.json'') = Some (str ''second'')
   \<and> Dir (fmupd (str ''My_World.json'') (str ''second'')
             (fmupd (str ''My_World.json'') (str ''first'') fmempty))
       = Dir (fmupd (str ''My_World.json'') (str ''second'') fmempty)"
proof -
  have n: "str ''My World'' \<noteq> str ''My_World''"
    by (simp add: str_def)
  have h1: "safe_filename sample_lib (str ''My World'') = Some (str ''My_World.json'')"
    and h2: "safe_filename sample_lib (str ''My_World'') = Some (str ''My_World.json'')"
    by (rule safe_filename_My_World)+
  have s1: "save_universe sample_lib NoFault (str ''My World'') (str ''first'') (Dir fmempty)
              = (True, Dir (fmupd (str ''My_World.json'') (str ''first'') fmempty))"
    by (simp add: save_universe_cases [OF h1])
  have s2: "save_universe sample_lib NoFault (str ''My_World'') (str ''second'')
              (Dir (fmupd (str ''My_World.json'') (str ''first'') fmempty))
            = (True, Dir (fmupd (str ''My_World.json'') (str ''second'')
                            (fmupd (str ''My_World.json'') (str ''first'') fmempty)))"
    by (simp add: save_universe_cases [OF h2])
  from colliding_names_overwrite [OF n h1 h2 s1 s2] n h1 h2 s1 s2
  show ?thesis by simp
qed

section \<open>What the handlers answer\<close>

lemma send_error_raises: "send_error code message = Raised"
  by (simp add: send_error_def)

lemma api_path:
  "startswith (api_prefix @ rest) api_prefix"
  "drop (length api_prefix) (api_prefix @ rest) = rest"
  by (simp_all add: startswith_def)

lemma api_prefix_not_list: "api_prefix @ rest \<noteq> str ''/api/universes''"
proof
  assume "api_prefix @ rest = str ''/api/universes''"
  then have "length (api_prefix @ rest) = length (str ''/api/universes'')" by simp
  then show False by (simp add: api_prefix_def str_def)
qed

lemma do_GET_api:
  "do_GET L E (api_prefix @ rest) st =
     (case load_universe L E (unquote L rest) st of
        Raise \<Rightarrow> Raised
      | Return None \<Rightarrow> Raised
      | Return (Some data) \<Rightarrow> Raw200 data)"
  by (simp add: do_GET_def api_path api_prefix_not_list Let_def send_error_raises
      split: outcome.splits option.splits)

lemma do_POST_api:
  assumes "(case hdr of None \<Rightarrow> Some 0 | Some h \<Rightarrow> py_int L h) = Some n"
    and "utf8_decode L (rfile_read rfile n) = Some body"
  shows "do_POST L fault (api_prefix @ rest) hdr rfile st =
     (let r = save_universe L fault (unquote L rest) body st
      in if fst r
         then (Json200 (JObj [(str ''ok'', JBool True), (str ''name'', JStr (unquote L rest))]),
               snd r)
         else (Raised, snd r))"
  using assms
  by (simp add: do_POST_def api_path Let_def send_error_raises split: prod.splits)

lemma do_DELETE_api:
  "do_DELETE L E (api_prefix @ rest) st =
     (case fst (delete_universe L E (unquote L rest) st) of
        Raise \<Rightarrow> (Raised, snd (delete_universe L E (unquote L rest) st))
      | Return ok \<Rightarrow>
          if ok then (Json200 (JObj [(str ''ok'', JBool True)]),
                      snd (delete_universe L E (unquote L rest) st))
          else (Raised, snd (delete_universe L E (unquote L rest) st)))"
  by (simp add: do_DELETE_def api_path Let_def send_error_raises
      split: prod.splits outcome.splits)

text \<open>
  Claim C1, as stated, fails: the file \<open>a.json\<close> holds \<open>{\r\n}\<close>, and Load answers
  200 with \<open>{\n}\<close>, which is not the stored content. And the file \<open>binary.json\<close>
  exists but cannot be read as text: Load raises and answers neither 200 nor 404.
\<close>

theorem load_not_bytewise_counterexample:
  "file_text crlf_dir (str ''a.json'') = Some [123, 13, 10, 125]
   \<and> safe_filename sample_lib (unquote sample_lib (str ''a'')) = Some (str ''a.json'')
   \<and> do_GET sample_lib sample_env (api_prefix @ str ''a'') crlf_dir = Raw200 [123, 10, 125]
   \<and> do_GET sample_lib sample_env (api_prefix @ str ''a'') crlf_dir \<noteq> Raw200 [123, 13, 10, 125]
   \<and> file_text crlf_dir (str ''binary.json'') = Some []
   \<and> do_GET sample_lib sample_env (api_prefix @ str ''binary'') crlf_dir = Raised"
proof -
  have a: "file_text crlf_dir (str ''a.json'') = Some [123, 13, 10, 125]"
    by (simp add: crlf_dir_def)
  have b: "safe_filename sample_lib (unquote sample_lib (str ''a'')) = Some (str ''a.json'')"
    by code_simp
  have r: "\<not> read_raises sample_env (str ''a.json'')"
    by (simp add: sample_env_def str_def)
  have c: "do_GET sample_lib sample_env (api_prefix @ str ''a'') crlf_dir
             = Raw200 [123, 10, 125]"
    by (simp add: do_GET_api load_universe_file [OF b] a r)
  have b': "safe_filename sample_lib (unquote sample_lib (str ''binary''))
              = Some (str ''binary.json'')"
    by code_simp
  have a': "file_text crlf_dir (str ''binary.json'') = Some []"
    by (simp add: crlf_dir_def str_def)
  have r': "read_raises sample_env (str ''binary.json'')"
    by (simp add: sample_env_def)
  have c': "do_GET sample_lib sample_env (api_prefix @ str ''binary'') crlf_dir = Raised"
    by (simp add: do_GET_api load_universe_file [OF b'] a' r')
  from a b c a' c' show ?thesis by simp
qed

text \<open>
  Claim C1, amended: Load answers 200 exactly when the name sanitizes, there is a file
  under the sanitized filename and reading it does not raise; \<open>load_universe\<close>
  reports that there is no such universe (the case the handler hands to
  \<open>send_error(404)\<close>) exactly when the name does not sanitize or there is no file
  under the sanitized filename. The body of the 200 answer is the text of the file as a
  text-mode read returns it: nothing is parsed or serialized again, but every \<open>\r\n\<close>
  and every lone \<open>\r\<close> comes back as \<open>\n\<close>; the body is the stored content itself
  exactly when that content has no carriage return.
\<close>

theorem load_response:
  "(load_universe L E (unquote L rest) st = Return None
     \<longleftrightarrow> safe_filename L (unquote L rest) = None
         \<or> (\<exists>f. safe_filename L (unquote L rest) = Some f \<and> file_text st f = None))
   \<and> ((\<exists>body. do_GET L E (api_prefix @ rest) st = Raw200 body)
     \<longleftrightarrow> (\<exists>f content. safe_filename L (unquote L rest) = Some f
            \<and> file_text st f = Some content \<and> \<not> read_raises E f))
   \<and> (\<forall>f content. safe_filename L (unquote L rest) = Some f \<and> file_text st f = Some content
            \<and> \<not> read_raises E f
         \<longrightarrow> do_GET L E (api_prefix @ rest) st = Raw200 (text_read content)
             \<and> (do_GET L E (api_prefix @ rest) st = Raw200 content
                  \<longleftrightarrow> 13 \<notin> set content))"
proof (cases "safe_filename L (unquote L rest)")
  case None
  then show ?thesis
    by (simp add: do_GET_api load_universe_unsanitizable)
next
  case (Some f)
  show ?thesis
    by (cases "file_text st f")
       (simp_all add: Some do_GET_api load_universe_file [OF Some] text_read_id_iff)
qed

theorem load_response_witness:
  "safe_filename sample_lib (unquote sample_lib (str ''b'')) = Some (str ''b.json'')
   \<and> file_text sample_dir (str ''b.json'') = Some sample_doc
   \<and> \<not> read_raises sample_env (str ''b.json'')
   \<and> 13 \<notin> set sample_doc
   \<and> do_GET sample_lib sample_env (api_prefix @ str ''b'') sample_dir = Raw200 sample_doc"
proof -
  have h: "safe_filename sample_lib (unquote sample_lib (str ''b'')) = Some (str ''b.json'')"
    by code_simp
  have i: "file_text sample_dir (str ''b.json'') = Some sample_doc"
    by (simp add: sample_dir_def)
  have j: "13 \<notin> set sample_doc"
    by (simp add: sample_doc_def str_def)
  have k: "\<not> read_raises sample_env (str ''b.json'')"
    by (simp add: sample_env_def str_def)
  from load_response [of sample_lib sample_env "str ''b''" sample_dir] h i j k
  show ?thesis by blast
qed








lemma do_POST_never_sends_error:
  "fst (do_POST L fault path hdr rfile st) \<noteq> SendError code message"
  by (auto simp: do_POST_def Let_def send_error_raises split: option.splits prod.splits)

lemma do_DELETE_never_sends_error:
  "fst (do_DELETE L E path st) \<noteq> SendError code message"
  by (auto simp: do_DELETE_def Let_def send_error_raises split: outcome.splits prod.splits)

text \<open>
  Claim C6 is not what the code does. Save is to answer 400 when the name does not
  sanitize or the write fails, and the handler calls \<open>send_error(400, ...)\<close> for it;
  but \<open>send_error\<close> logs first, the overridden \<open>log_message\<close> raises on the integer
  code, and no response is sent. Here the name \<open>?\<close> does not sanitize, and then the
  name \<open>My World\<close> meets a write that fails: both requests end in the exception, not
  in a 400 answer.
\<close>

theorem save_failure_sends_nothing:
  "do_POST sample_lib NoFault (api_prefix @ str ''?'') (Some (str ''2'')) (str ''{}'')
     (Dir fmempty) = (Raised, Dir fmempty)
   \<and> do_POST sample_lib OpenFails (api_prefix @ str ''My World'') (Some (str ''2''))
        (str ''{}'') (Dir fmempty) = (Raised, Dir fmempty)
   \<and> send_error 400 (Some (str ''Failed to save'')) = Raised"
proof -
  have a: "safe_filename sample_lib (str ''?'') = None"
    by code_simp
  have u: "unquote sample_lib s = s" for s
    by (simp add: sample_lib_def)
  have n: "(case Some (str ''2'') of None \<Rightarrow> Some 0 | Some h \<Rightarrow> py_int sample_lib h) = Some 2"
    by (simp add: sample_lib_def str_def)
  have d: "utf8_decode sample_lib (rfile_read (str ''{}'') 2) = Some (str ''{}'')"
    by (simp add: sample_lib_def rfile_read_def str_def)
  show ?thesis
    by (simp add: do_POST_api [OF n d] u save_universe_fails [OF a]
        save_universe_cases [OF safe_filename_My_World(1)] send_error_raises)
qed

text \<open>
  Claim C9 is not what the code does. The name \<open>!?.\<close> is punctuation only and does
  not sanitize; the save directory is indeed left unchanged, but the 400 answer is
  never sent: \<open>send_error\<close> raises in the overridden \<open>log_message\<close>.
\<close>

theorem save_unsanitizable_name_sends_nothing:
  "safe_filename sample_lib (unquote sample_lib (str ''!?.'')) = None
   \<and> do_POST sample_lib NoFault (api_prefix @ str ''!?.'') (Some (str ''2'')) (str ''{}'')
        sample_dir = (Raised, sample_dir)"
proof -
  have a: "safe_filename sample_lib (unquote sample_lib (str ''!?.'')) = None"
    by code_simp
  have n: "(case Some (str ''2'') of None \<Rightarrow> Some 0 | Some h \<Rightarrow> py_int sample_lib h) = Some 2"
    by (simp add: sample_lib_def str_def)
  have d: "utf8_decode sample_lib (rfile_read (str ''{}'') 2) = Some (str ''{}'')"
    by (simp add: sample_lib_def rfile_read_def str_def)
  show ?thesis
    by (simp add: a do_POST_api [OF n d] save_universe_fails [OF a])
qed

lemma delete_universe_removed:
  assumes "safe_filename L name = Some f" and "file_text st f \<noteq> None"
    and "\<not> remove_raises E f"
  shows "fst (delete_universe L E name st) = Return True"
    and "file_text (snd (delete_universe L E name st)) g
           = (if g = f then None else file_text st g)"
  using assms by (cases st; auto simp: delete_universe_def)+

lemma delete_universe_missing:
  assumes "safe_filename L name = None
           \<or> (\<exists>f. safe_filename L name = Some f \<and> file_text st f = None)"
  shows "delete_universe L E name st = (Return False, st)"
  using assms by (cases st) (auto simp: delete_universe_def)

text \<open>
  Claim C7 is not what the code does. Delete is to answer 404 when there is no file
  under the sanitized filename, and the handler calls \<open>send_error(404, ...)\<close> for it;
  the overridden \<open>log_message\<close> raises on the integer code and no response is sent.
  The same happens to the Load that follows a successful Delete.
\<close>

theorem delete_missing_sends_nothing:
  "do_DELETE sample_lib sample_env (api_prefix @ str ''nothing'') sample_dir
     = (Raised, sample_dir)
   \<and> fst (do_DELETE sample_lib sample_env (api_prefix @ str ''b'') sample_dir)
       = Json200 (JObj [(str ''ok'', JBool True)])
   \<and> file_text (snd (do_DELETE sample_lib sample_env (api_prefix @ str ''b'') sample_dir))
        (str ''b.json'') = None
   \<and> do_GET sample_lib sample_env (api_prefix @ str ''b'')
        (snd (do_DELETE sample_lib sample_env (api_prefix @ str ''b'') sample_dir))
       = Raised"
proof -
  have a: "safe_filename sample_lib (unquote sample_lib (str ''nothing''))
             = Some (str ''nothing.json'')"
    and b: "safe_filename sample_lib (unquote sample_lib (str ''b'')) = Some (str ''b.json'')"
    by code_simp+
  have m: "file_text sample_dir (str ''nothing.json'') = None"
    by (simp add: sample_dir_def str_def)
  have e: "file_text sample_dir (str ''b.json'') \<noteq> None"
    by (simp add: sample_dir_def)
  have r: "\<not> remove_raises sample_env (str ''b.json'')"
    by (simp add: sample_env_def str_def)
  have d1: "delete_universe sample_lib sample_env (unquote sample_lib (str ''nothing''))
              sample_dir = (Return False, sample_dir)"
    using a m by (intro delete_universe_missing) blast
  note d2 = delete_universe_removed [OF b e r]
  have g: "load_universe sample_lib sample_env (unquote sample_lib (str ''b''))
             (snd (delete_universe sample_lib sample_env (unquote sample_lib (str ''b''))
                     sample_dir)) = Return None"
    by (simp add: load_universe_file [OF b] d2(2))
  show ?thesis
    by (simp add: do_DELETE_api d1 d2 do_GET_api g)
qed


section \<open>Properties of the filename-to-name transform\<close>

lemma replace_underscores:
  "py_replace (str ''_'') (str '' '') s = map (\<lambda>c. if c = 95 then 32 else c) s"
proof -
  have "py_replace_scan [95] [32] s = map (\<lambda>c. if c = 95 then 32 else c) s"
    by (induction s) auto
  then show ?thesis by (simp add: py_replace_def str_def)
qed

lemma replace_json_stem:
  assumes "46 \<notin> set stem"
  shows "py_replace (str ''.json'') [] (stem @ str ''.json'') = stem"
proof -
  have "py_replace_scan [46, 106, 115, 111, 110] [] (stem @ [46, 106, 115, 111, 110]) = stem"
    using assms
  proof (induction stem)
    case Nil
    show ?case by simp
  next
    case (Cons c cs)
    then have "c \<noteq> 46" by auto
    then have "take 5 (c # cs @ [46, 106, 115, 111, 110]) \<noteq> [46, 106, 115, 111, 110]"
      by (auto simp: take_Cons')
    with Cons show ?case by simp
  qed
  then show ?thesis by (simp add: py_replace_def str_json)
qed

lemma drop_json_suffix_append: "drop_json_suffix (stem @ str ''.json'') = stem"
  by (simp add: drop_json_suffix_def)

lemma name_from_filename_dotless_stem:
  assumes "46 \<notin> set stem"
  shows "name_from_filename (stem @ str ''.json'') = map (\<lambda>c. if c = 95 then 32 else c) stem"
    and "name_from_filename (stem @ str ''.json'') = spec_name_from_filename (stem @ str ''.json'')"
  by (simp_all add: name_from_filename_def replace_json_stem [OF assms]
      replace_underscores spec_name_from_filename_def drop_json_suffix_append)

text \<open>
  Claim C4 is not what the code does. \<open>str.replace\<close> removes every occurrence of
  \<open>.json\<close>, not only the suffix: a file \<open>a.json.json\<close> of the save directory is
  listed under the name \<open>a\<close>, while dropping the suffix gives \<open>a.json\<close>.
\<close>

theorem name_from_filename_inner_json:
  "name_from_filename (str ''a.json.json'') = str ''a''
   \<and> spec_name_from_filename (str ''a.json.json'') = str ''a.json''
   \<and> name_from_filename (str ''a.json.json'') \<noteq> spec_name_from_filename (str ''a.json.json'')"
proof -
  have a: "name_from_filename (str ''a.json.json'') = str ''a''"
    by code_simp
  have b: "spec_name_from_filename (str ''a.json.json'') = str ''a.json''"
    by code_simp
  have c: "str ''a'' \<noteq> str ''a.json''"
    by (simp add: str_def)
  from a b c show ?thesis by simp
qed

section \<open>Listing\<close>









end
